theory Spec2Isabelle
  imports Complex_Main
begin

section \<open>Values\<close>

text \<open>
  The tracker handles decoded JSON: the body of a response (\<open>response.json()\<close>), the
  token file (\<open>json.load\<close>) and, read back from SQLite, the cells of a row. A value is
  \<open>None\<close>, a number, a string, a list or a dict.

  Python's \<open>bool\<close>, \<open>int\<close> and \<open>float\<close> are one constructor, the number's value: every
  operation embedded below (\<open>isinstance(v, (int, float))\<close>, \<open>==\<close>, \<open>-\<close>, \<open>abs\<close>, \<open>>\<close>,
  truthiness) depends on the value only, \<open>True == 1\<close> and \<open>1 == 1.0\<close> included. Floats
  are idealised as reals: no rounding, no NaN, no infinities. A dict is the list of its
  items, keys distinct and in one fixed order, so that HOL equality is Python's \<open>==\<close>.
\<close>

datatype pyval =
    PNone
  | PNum real
  | PStr string
  | PList "pyval list"
  | PDict "(string \<times> pyval) list"

type_synonym pydict = "(string \<times> pyval) list"

text \<open>\<open>d.get(key)\<close>: the value, \<open>None\<close> for a missing key.\<close>

definition dict_get :: "pydict \<Rightarrow> string \<Rightarrow> pyval" where
  "dict_get d k = (case map_of d k of None \<Rightarrow> PNone | Some v \<Rightarrow> v)"

text \<open>\<open>d.get(key, default)\<close>.\<close>

definition dict_get_default :: "pydict \<Rightarrow> string \<Rightarrow> pyval \<Rightarrow> pyval" where
  "dict_get_default d k dflt = (case map_of d k of None \<Rightarrow> dflt | Some v \<Rightarrow> v)"

text \<open>Truthiness, as \<open>if data:\<close> and \<open>if self.access_token:\<close> test it.\<close>

fun truthy :: "pyval \<Rightarrow> bool" where
  "truthy PNone = False"
| "truthy (PNum r) = (r \<noteq> 0)"
| "truthy (PStr s) = (s \<noteq> [])"
| "truthy (PList xs) = (xs \<noteq> [])"
| "truthy (PDict d) = (d \<noteq> [])"

text \<open>\<open>isinstance(v, (int, float))\<close>.\<close>

fun is_number :: "pyval \<Rightarrow> bool" where
  "is_number (PNum r) = True"
| "is_number v = False"

section \<open>Change detection: \<open>_has_data_changed\<close>\<close>

definition compare_fields :: "string list" where
  "compare_fields =
     [''latitude'', ''longitude'', ''speed'', ''status'', ''rpm'',
      ''currentFuelConsumption'', ''totalFuelConsumption'',
      ''currentOdometer'', ''totalOdometer'', ''driverId'',
      ''course'', ''address'']"

text \<open>
  One iteration of the loop over \<open>compare_fields\<close>: two numbers differ when they are more
  than \<open>0.0001\<close> apart; any other pair differs when \<open>new_val != old_val\<close>.
\<close>

fun field_changed :: "pyval \<Rightarrow> pyval \<Rightarrow> bool" where
  "field_changed (PNum a) (PNum b) = (\<bar>a - b\<bar> > 1 / 10000)"
| "field_changed new_val old_val = (new_val \<noteq> old_val)"

text \<open>The loop: it returns \<open>True\<close> at the first field that differs, \<open>False\<close> at its end.\<close>

fun fields_changed :: "string list \<Rightarrow> pydict \<Rightarrow> pydict \<Rightarrow> bool" where
  "fields_changed [] new_data old_data = False"
| "fields_changed (field # fields) new_data old_data =
     (if field_changed (dict_get new_data field) (dict_get old_data field) then True
      else fields_changed fields new_data old_data)"

definition has_data_changed :: "pydict \<Rightarrow> pydict option \<Rightarrow> bool" where
  "has_data_changed new_data old_data =
     (case old_data of
        None \<Rightarrow> True
      | Some old \<Rightarrow> fields_changed compare_fields new_data old)"

section \<open>The environment\<close>

text \<open>
  What the tracker does not decide: the remote API, the browser login, the wall clock
  and the SQLite engine. Every external call is numbered (\<open>step\<close> of the tracker's state
  counts them), and the environment gives the outcome of the call with that number, so
  that any deterministic remote, however it changes over time, is an environment.
\<close>

text \<open>
  The outcome of \<open>session.get\<close>: it raises (no connection, timeout after 30 seconds), or it
  returns a response with a status code and a body; the body is given as what
  \<open>response.json()\<close> makes of it, \<open>None\<close> when that raises.
\<close>

datatype http_result =
    Request_failed
  | Response int "pyval option"

record env =
  api :: "nat \<Rightarrow> int \<Rightarrow> int \<Rightarrow> pyval option \<Rightarrow> http_result"
  browser_login :: "nat \<Rightarrow> string option"
  clock :: "nat \<Rightarrow> real"
  select_fails :: "nat \<Rightarrow> bool"
  insert_fails :: "nat \<Rightarrow> bool"
  text_of_num :: "real \<Rightarrow> string"
  num_of_text :: "string \<Rightarrow> real option"

text \<open>
  \<^item> \<open>api E k vehicle_id time auth\<close>: the answer to the request sent as call \<open>k\<close>, for
    \<open>vehicleId\<close>, \<open>time\<close> and the bearer token \<open>auth\<close> (no \<open>Authorization\<close> header when \<open>None\<close>);
  \<^item> \<open>browser_login E k\<close>: the access token the browser login run as call \<open>k\<close> reads from
    \<open>localStorage\<close>, \<open>None\<close> when it fails before (an exception, the login page again, no
    login data);
  \<^item> \<open>clock E k\<close>: \<open>time.time()\<close> at call \<open>k\<close>;
  \<^item> \<open>select_fails E k\<close>, \<open>insert_fails E k\<close>: the SELECT, the INSERT or its commit run as
    call \<open>k\<close> raises for a reason of the engine's (locked database, disk error);
  \<^item> \<open>text_of_num\<close>, \<open>num_of_text\<close>: SQLite's conversions between numbers and text, used
    by its column affinities.
\<close>

section \<open>The tracker's state\<close>

text \<open>
  The content of a JSON text, seen through its decoder: \<open>Encoded v\<close> decodes to \<open>v\<close>,
  \<open>Undecodable\<close> makes the decoder raise, \<open>Blank\<close> is the empty string or SQL NULL.
\<close>

datatype json_text = Blank | Undecodable | Encoded pyval

text \<open>
  A row of \<open>vehicle_location_history\<close>: the 39 columns \<open>device_id\<close> ... \<open>address\<close> in the
  order of the table, and \<open>other_attributes\<close>. The table is the list of its rows in
  insertion order. The wall clock is taken to increase from one insert to the next (the
  loop sleeps two seconds after every vehicle), so that the row with the greatest
  \<open>fetch_timestamp\<close> is the last one inserted; \<open>id\<close> and \<open>fetch_timestamp\<close> are not kept.
\<close>

record row =
  cells :: "pyval list"
  other_attributes :: json_text

text \<open>
  \<open>token_file\<close> is \<open>fleetx_token.json\<close> (\<open>None\<close>: no such file). \<open>requests\<close> and \<open>logins\<close>
  count the requests sent and the calls of \<open>login_with_selenium\<close>; the program does not
  read them. Reading, writing and removing the token file are taken not to fail for a
  reason of the file system's.
\<close>

record tracker =
  access_token :: pyval
  token_file :: "json_text option"
  db :: "row list"
  step :: nat
  requests :: nat
  logins :: nat

definition tick :: "tracker \<Rightarrow> tracker" where
  "tick s = s\<lparr>step := Suc (step s)\<rparr>"

section \<open>The credential: \<open>_load_saved_token\<close>, \<open>_save_token\<close>, \<open>login_with_selenium\<close>\<close>

text \<open>The test of line 66: \<open>time.time() - saved_time < 12 * 3600\<close>.\<close>

definition token_is_recent :: "real \<Rightarrow> real \<Rightarrow> bool" where
  "token_is_recent now saved_time = (now - saved_time < 12 * 3600)"

text \<open>
  \<open>_load_saved_token\<close>. Every exception is caught and logged: a file that does not decode,
  a decoded value without \<open>.get\<close>, and a \<open>saved_at\<close> that is not a number (the subtraction
  raises after \<open>self.access_token\<close> has been assigned, so the token stays).
\<close>

definition load_saved_token :: "env \<Rightarrow> tracker \<Rightarrow> tracker" where
  "load_saved_token E s =
     (case token_file s of
        None \<Rightarrow> s
      | Some Blank \<Rightarrow> s
      | Some Undecodable \<Rightarrow> s
      | Some (Encoded (PDict token_data)) \<Rightarrow>
          (let s1 = s\<lparr>access_token := dict_get token_data ''access_token''\<rparr> in
           case dict_get_default token_data ''saved_at'' (PNum 0) of
             PNum saved_time \<Rightarrow>
               if token_is_recent (clock E (step s)) saved_time then s1
               else s1\<lparr>access_token := PNone\<rparr>
           | _ \<Rightarrow> s1)
      | Some (Encoded _) \<Rightarrow> s)"

definition save_token :: "env \<Rightarrow> tracker \<Rightarrow> tracker" where
  "save_token E s =
     s\<lparr>token_file := Some (Encoded (PDict
          [(''access_token'', access_token s), (''saved_at'', PNum (clock E (step s)))]))\<rparr>"

text \<open>
  \<open>login_with_selenium\<close>: the browser session is the environment's; what the tracker does
  with its outcome is here. A token that is empty is "not found in localStorage".
\<close>

definition login_with_selenium :: "env \<Rightarrow> tracker \<Rightarrow> bool \<times> tracker" where
  "login_with_selenium E s =
     (let s1 = s\<lparr>step := Suc (step s), logins := Suc (logins s)\<rparr> in
      case browser_login E (step s) of
        None \<Rightarrow> (False, s1)
      | Some token \<Rightarrow>
          if token \<noteq> [] then (True, save_token E (s1\<lparr>access_token := PStr token\<rparr>))
          else (False, s1\<lparr>access_token := PStr token\<rparr>))"

section \<open>The history store\<close>

datatype column_type = TEXT | INTEGER | REAL | BIGINT

text \<open>
  The columns of the INSERT and of the SELECT, in their order: the column, the key of
  the snapshot it is filled from, and its declared type.
\<close>

definition schema :: "(string \<times> string \<times> column_type) list" where
  "schema =
     [(''device_id'', ''deviceId'', TEXT),
      (''account_id'', ''accountId'', INTEGER),
      (''vehicle_id'', ''vehicleId'', INTEGER),
      (''vehicle_number'', ''vehicleNumber'', TEXT),
      (''vehicle_name'', ''vehicleName'', TEXT),
      (''vehicle_make'', ''vehicleMake'', TEXT),
      (''vehicle_model'', ''vehicleModel'', TEXT),
      (''driver_name'', ''driverName'', TEXT),
      (''vehicle_year'', ''vehicleYear'', INTEGER),
      (''group_id'', ''groupId'', INTEGER),
      (''driver_id'', ''driverId'', INTEGER),
      (''fuel_type'', ''fuelType'', TEXT),
      (''type'', ''type'', TEXT),
      (''latitude'', ''latitude'', REAL),
      (''longitude'', ''longitude'', REAL),
      (''current_fuel_consumption'', ''currentFuelConsumption'', REAL),
      (''total_fuel_consumption'', ''totalFuelConsumption'', REAL),
      (''current_def_consumption'', ''currentDEFConsumption'', REAL),
      (''total_def_consumption'', ''totalDEFConsumption'', REAL),
      (''trip_ev_battery_consumed'', ''tripEVBatteryConsumed'', REAL),
      (''trip_ev_battery_voltage_consumed'', ''tripEVBatteryVoltageConsumed'', REAL),
      (''current_odometer'', ''currentOdometer'', REAL),
      (''total_odometer'', ''totalOdometer'', REAL),
      (''speed'', ''speed'', REAL),
      (''timestamp'', ''timeStamp'', TEXT),
      (''create_date'', ''createDate'', TEXT),
      (''rpm'', ''rpm'', TEXT),
      (''status'', ''status'', TEXT),
      (''mileage'', ''mileage'', REAL),
      (''mileage_def'', ''mileageDEF'', REAL),
      (''mileage_ev'', ''mileageEV'', REAL),
      (''mileage_ev_voltage'', ''mileageEVVoltage'', REAL),
      (''last_acc_on'', ''lastAccOn'', TEXT),
      (''gear'', ''gear'', INTEGER),
      (''rpm_slot'', ''rpmSlot'', INTEGER),
      (''duration_engine_on'', ''durationEngineOn'', INTEGER),
      (''server_time'', ''serverTime'', BIGINT),
      (''course'', ''course'', REAL),
      (''address'', ''address'', TEXT)]"

definition data_keys :: "string list" where
  "data_keys = map (\<lambda>(column, key, ty). key) schema"

text \<open>
  What SQLite keeps of a bound value in a column of a declared type (\<open>None\<close>: the binding
  raises, as for a list or a dict). NULL stays NULL; a TEXT column turns a number into
  text; a numeric column turns text into a number when the text is one, and keeps it as
  text otherwise.
\<close>

fun sql_store :: "env \<Rightarrow> column_type \<Rightarrow> pyval \<Rightarrow> pyval option" where
  "sql_store E ty PNone = Some PNone"
| "sql_store E ty (PList xs) = None"
| "sql_store E ty (PDict d) = None"
| "sql_store E TEXT (PNum r) = Some (PStr (text_of_num E r))"
| "sql_store E TEXT (PStr t) = Some (PStr t)"
| "sql_store E ty (PNum r) = Some (PNum r)"
| "sql_store E ty (PStr t) =
     (case num_of_text E t of None \<Rightarrow> Some (PStr t) | Some r \<Rightarrow> Some (PNum r))"

text \<open>SQL's \<open>=\<close> in a WHERE clause: NULL equals nothing.\<close>

definition sql_eq :: "pyval \<Rightarrow> pyval \<Rightarrow> bool" where
  "sql_eq a b = (a \<noteq> PNone \<and> b \<noteq> PNone \<and> a = b)"

text \<open>The dict \<open>_get_last_record\<close> builds from a row, \<open>otherAttributes\<close> apart.\<close>

definition row_snapshot :: "row \<Rightarrow> pydict" where
  "row_snapshot r = zip data_keys (cells r)"

text \<open>The dict built from the row found; \<open>None\<close>: \<open>json.loads\<close> raises on \<open>other_attributes\<close>.\<close>

definition decode_row :: "row \<Rightarrow> pydict option" where
  "decode_row r =
     (case other_attributes r of
        Undecodable \<Rightarrow> None
      | Blank \<Rightarrow> Some (row_snapshot r @ [(''otherAttributes'', PDict [])])
      | Encoded v \<Rightarrow> Some (row_snapshot r @ [(''otherAttributes'', v)]))"

text \<open>
  \<open>_get_last_record\<close>: the last row whose \<open>vehicle_id\<close> is the one asked for, as a dict;
  \<open>None\<close> when there is none, and \<open>None\<close> as well on every exception (the SELECT or the
  binding of its parameter raises, \<open>json.loads\<close> raises on \<open>other_attributes\<close>).
\<close>

definition get_last_record :: "env \<Rightarrow> pyval \<Rightarrow> tracker \<Rightarrow> pydict option" where
  "get_last_record E vehicle_id s =
     (if select_fails E (step s) then None
      else case sql_store E INTEGER vehicle_id of
        None \<Rightarrow> None
      | Some p \<Rightarrow>
          (case rev (filter (\<lambda>r. sql_eq (dict_get (row_snapshot r) ''vehicleId'') p) (db s)) of
             [] \<Rightarrow> None
           | r # older \<Rightarrow> decode_row r))"

text \<open>The values of the INSERT, bound column by column.\<close>

definition bind_row :: "env \<Rightarrow> pydict \<Rightarrow> pyval list option" where
  "bind_row E d = those (map (\<lambda>(column, key, ty). sql_store E ty (dict_get d key)) schema)"

text \<open>
  The INSERT and its commit. On an exception the transaction is rolled back and the
  table is as before.
\<close>

definition insert_row :: "env \<Rightarrow> pydict \<Rightarrow> tracker \<Rightarrow> tracker" where
  "insert_row E d s =
     (case bind_row E d of
        None \<Rightarrow> tick s
      | Some cs \<Rightarrow>
          if insert_fails E (step s) then tick s
          else tick (s\<lparr>db := db s @
                 [\<lparr>cells = cs,
                   other_attributes = Encoded (dict_get_default d ''otherAttributes'' (PDict []))\<rparr>]\<rparr>))"

text \<open>
  \<open>store_location_data\<close>. A body that is not a dict has no \<open>.get\<close>: the exception is caught
  and nothing is stored.
\<close>

definition store_location_data :: "env \<Rightarrow> pyval \<Rightarrow> tracker \<Rightarrow> tracker" where
  "store_location_data E data s =
     (case data of
        PDict d \<Rightarrow>
          (let vehicle_id = dict_get d ''vehicleId'';
               last_record = get_last_record E vehicle_id s
           in if \<not> has_data_changed d last_record then tick s
              else insert_row E d (tick s))
      | _ \<Rightarrow> s)"

text \<open>
  The history of an entity: the rows the SELECT of \<open>_get_last_record\<close> ranges over for a
  vehicle id, oldest first.
\<close>

definition entity_rows :: "env \<Rightarrow> pyval \<Rightarrow> row list \<Rightarrow> row list" where
  "entity_rows E vehicle_id rows =
     (case sql_store E INTEGER vehicle_id of
        None \<Rightarrow> []
      | Some p \<Rightarrow> filter (\<lambda>r. sql_eq (dict_get (row_snapshot r) ''vehicleId'') p) rows)"


text \<open>
  A snapshot whose values have the types the table declares: a number or \<open>None\<close> in a
  numeric column, a string or \<open>None\<close> in a TEXT column. SQLite keeps such values as they
  are.
\<close>

fun has_column_type :: "column_type \<Rightarrow> pyval \<Rightarrow> bool" where
  "has_column_type ty PNone = True"
| "has_column_type TEXT (PStr t) = True"
| "has_column_type TEXT v = False"
| "has_column_type ty (PNum r) = True"
| "has_column_type ty v = False"

definition schema_typed :: "pydict \<Rightarrow> bool" where
  "schema_typed d = list_all (\<lambda>(column, key, ty). has_column_type ty (dict_get d key)) schema"

text \<open>The row a snapshot is stored as.\<close>

definition new_row :: "pydict \<Rightarrow> row" where
  "new_row d =
     \<lparr>cells = map (dict_get d) data_keys,
      other_attributes = Encoded (dict_get_default d ''otherAttributes'' (PDict []))\<rparr>"

text \<open>A sequence of store operations.\<close>

fun store_all :: "env \<Rightarrow> pydict list \<Rightarrow> tracker \<Rightarrow> tracker" where
  "store_all E [] s = s"
| "store_all E (d # ds) s = store_all E ds (store_location_data E (PDict d) s)"

section \<open>The telemetry client: \<open>fetch_vehicle_location\<close>\<close>

text \<open>
  The function returns the decoded body, or \<open>None\<close> (here \<open>PNone\<close>) on every failure. On
  401 or 403 it drops the token and the token file, logs in, and on success calls
  itself with the same \<open>timestamp\<close>. Nothing in the source bounds that recursion, so the
  function is partial: the value \<open>None\<close> of the option type is "does not return". (The
  interpreter's recursion limit, which would end it after some hundreds of logins with a
  \<open>RecursionError\<close> that the \<open>except\<close> clause turns into \<open>None\<close>, is not modelled.)
\<close>

text \<open>
  The request: its \<open>time\<close> parameter (\<open>int(time.time() * 1000)\<close>, and \<open>int\<close> rounds towards
  zero, when no \<open>timestamp\<close> is passed), its bearer token, the answer it gets as the next
  external call, and the state once it is sent.
\<close>

definition py_int :: "real \<Rightarrow> int" where
  "py_int x = (if 0 \<le> x then \<lfloor>x\<rfloor> else \<lceil>x\<rceil>)"

definition request_time :: "env \<Rightarrow> int option \<Rightarrow> tracker \<Rightarrow> int" where
  "request_time E timestamp s =
     (case timestamp of None \<Rightarrow> py_int (clock E (step s) * 1000) | Some t \<Rightarrow> t)"

definition bearer :: "tracker \<Rightarrow> pyval option" where
  "bearer s = (if truthy (access_token s) then Some (access_token s) else None)"

definition next_response :: "env \<Rightarrow> int \<Rightarrow> int option \<Rightarrow> tracker \<Rightarrow> http_result" where
  "next_response E vehicle_id timestamp s =
     api E (step s) vehicle_id (request_time E timestamp s) (bearer s)"

definition sent :: "tracker \<Rightarrow> tracker" where
  "sent s = s\<lparr>step := Suc (step s), requests := Suc (requests s)\<rparr>"

text \<open>Lines 274 to 276: the token is cleared and the token file removed.\<close>

definition drop_token :: "tracker \<Rightarrow> tracker" where
  "drop_token s = s\<lparr>access_token := PNone, token_file := None\<rparr>"

partial_function (option) fetch_vehicle_location ::
  "env \<Rightarrow> int \<Rightarrow> int option \<Rightarrow> tracker \<Rightarrow> (pyval \<times> tracker) option" where
  "fetch_vehicle_location E vehicle_id timestamp s =
     (case next_response E vehicle_id timestamp s of
        Request_failed \<Rightarrow> Some (PNone, sent s)
      | Response status_code body \<Rightarrow>
          if status_code = 200 then
            (case body of None \<Rightarrow> Some (PNone, sent s) | Some data \<Rightarrow> Some (data, sent s))
          else if status_code = 401 \<or> status_code = 403 then
            (let (logged_in, s2) = login_with_selenium E (drop_token (sent s))
             in if logged_in then
                  fetch_vehicle_location E vehicle_id (Some (request_time E timestamp s)) s2
                else Some (PNone, s2))
          else Some (PNone, sent s))"

text \<open>
  The classification of the specification (its sections 4.3 and 6), which the source
  does not compute: 200 with a body that decodes is the snapshot, 200 with one that does
  not is a \<open>ParseError\<close>, 401 and 403 are an \<open>AuthError\<close>, every other status, and a request
  that raises or times out, is a \<open>NetworkError\<close>.
\<close>

datatype fetch_outcome = Snapshot pyval | AuthError | NetworkError | ParseError

fun spec_classify :: "http_result \<Rightarrow> fetch_outcome" where
  "spec_classify Request_failed = NetworkError"
| "spec_classify (Response status_code body) =
     (if status_code = 200 then (case body of None \<Rightarrow> ParseError | Some data \<Rightarrow> Snapshot data)
      else if status_code = 401 \<or> status_code = 403 then AuthError
      else NetworkError)"

section \<open>The scheduler: \<open>run_periodic_fetch\<close>\<close>

text \<open>The body of the loop over \<open>vehicle_ids\<close>.\<close>

definition process_vehicle :: "env \<Rightarrow> int \<Rightarrow> tracker \<Rightarrow> tracker option" where
  "process_vehicle E vehicle_id s =
     (case fetch_vehicle_location E vehicle_id None s of
        None \<Rightarrow> None
      | Some (data, s1) \<Rightarrow>
          Some (if truthy data then store_location_data E data s1 else s1))"

text \<open>One cycle: the \<open>for\<close> loop.\<close>

fun fetch_cycle :: "env \<Rightarrow> int list \<Rightarrow> tracker \<Rightarrow> tracker option" where
  "fetch_cycle E [] s = Some s"
| "fetch_cycle E (vehicle_id # vehicle_ids) s =
     (case process_vehicle E vehicle_id s of
        None \<Rightarrow> None
      | Some s1 \<Rightarrow> fetch_cycle E vehicle_ids s1)"




section \<open>Scenarios\<close>

text \<open>
  Concrete environments, states and snapshots, on which the theorems below are
  evaluated. \<open>quiet\<close> is an environment in which no request gets through, no login
  succeeds and the database does not fail; the others change it where they need to.
\<close>

definition quiet :: env where
  "quiet =
     \<lparr>api = (\<lambda>k vehicle_id time auth. Request_failed),
      browser_login = (\<lambda>k. None),
      clock = (\<lambda>k. 100000),
      select_fails = (\<lambda>k. False),
      insert_fails = (\<lambda>k. False),
      text_of_num = (\<lambda>r. ''number''),
      num_of_text = (\<lambda>t. None)\<rparr>"

text \<open>The snapshot of the specification's end-to-end scenario, at a given speed.\<close>

definition running_at :: "real \<Rightarrow> pydict" where
  "running_at v =
     [(''vehicleId'', PNum 42), (''speed'', PNum v), (''latitude'', PNum 1),
      (''longitude'', PNum 2), (''status'', PStr ''RUNNING'')]"

text \<open>A tracker that is being constructed, with a token file saved at time \<open>t\<close>.\<close>

definition saved_token :: "real \<Rightarrow> tracker" where
  "saved_token t =
     \<lparr>access_token = PNone,
      token_file = Some (Encoded (PDict [(''access_token'', PStr ''abc''), (''saved_at'', PNum t)])),
      db = [], step = 0, requests = 0, logins = 0\<rparr>"

text \<open>
  A tracker with a token and an empty history; the environment whose third external
  call, a SELECT, fails; and the tracker after \<open>running_at 10\<close> has been stored once.
\<close>

definition fresh :: tracker where
  "fresh = \<lparr>access_token = PStr ''abc'', token_file = None, db = [], step = 0, requests = 0, logins = 0\<rparr>"

definition flaky :: env where
  "flaky = quiet\<lparr>select_fails := (\<lambda>k. k = 2)\<rparr>"

definition one_record :: tracker where
  "one_record = fresh\<lparr>db := [new_row (running_at 10)], step := 2\<rparr>"

text \<open>
  Remotes: one that rejects the token on the first two requests of a fetch and then
  answers, one that always rejects it, one that rejects it once; with a browser login
  that always yields the token \<open>renewed\<close>. Then remotes that always answer 401, 503, 200
  with the snapshot, and 200 with a body that does not decode, with a browser login
  that always fails.
\<close>

definition rejecting_twice :: env where
  "rejecting_twice =
     quiet\<lparr>api := (\<lambda>k vehicle_id time auth.
               if k < 4 then Response 401 None else Response 200 (Some (PDict (running_at 10)))),
           browser_login := (\<lambda>k. Some ''renewed'')\<rparr>"

definition always_rejecting :: env where
  "always_rejecting =
     quiet\<lparr>api := (\<lambda>k vehicle_id time auth. Response 401 None),
           browser_login := (\<lambda>k. Some ''renewed'')\<rparr>"

definition rejecting_once :: env where
  "rejecting_once =
     quiet\<lparr>api := (\<lambda>k vehicle_id time auth.
               if k < 2 then Response 403 None else Response 200 (Some (PDict (running_at 10)))),
           browser_login := (\<lambda>k. Some ''renewed'')\<rparr>"

definition unauthorized :: env where
  "unauthorized = quiet\<lparr>api := (\<lambda>k vehicle_id time auth. Response 401 None)\<rparr>"

definition unavailable :: env where
  "unavailable = quiet\<lparr>api := (\<lambda>k vehicle_id time auth. Response 503 None)\<rparr>"

definition answering :: env where
  "answering =
     quiet\<lparr>api := (\<lambda>k vehicle_id time auth. Response 200 (Some (PDict (running_at 10))))\<rparr>"

definition garbled :: env where
  "garbled = quiet\<lparr>api := (\<lambda>k vehicle_id time auth. Response 200 None)\<rparr>"

definition renewed :: "nat \<Rightarrow> nat \<Rightarrow> nat \<Rightarrow> tracker" where
  "renewed k n m =
     \<lparr>access_token = PStr ''renewed'',
      token_file = Some (Encoded (PDict
        [(''access_token'', PStr ''renewed''), (''saved_at'', PNum 100000)])),
      db = [], step = k, requests = n, logins = m\<rparr>"

text \<open>
  The snapshot of a vehicle, a remote whose answer for vehicle 2 does not decode, a
  tracker without a token, and a snapshot whose \<open>rpm\<close> is a number.
\<close>

definition snapshot_of :: "int \<Rightarrow> pydict" where
  "snapshot_of vehicle_id = [(''vehicleId'', PNum (real_of_int vehicle_id)), (''speed'', PNum 10)]"

definition second_garbled :: env where
  "second_garbled =
     quiet\<lparr>api := (\<lambda>k vehicle_id time auth.
               if vehicle_id = 2 then Response 200 None
               else Response 200 (Some (PDict (snapshot_of vehicle_id))))\<rparr>"


definition revving :: pydict where
  "revving = (''rpm'', PNum 1200) # running_at 10"

section \<open>Properties of the change detector\<close>

lemma field_changed_num:
  "is_number a \<Longrightarrow> is_number b \<Longrightarrow>
     field_changed a b = (case (a, b) of (PNum x, PNum y) \<Rightarrow> \<bar>x - y\<bar> > 1 / 10000 | _ \<Rightarrow> False)"
  by (cases a; cases b) simp_all

lemma field_changed_not_num:
  "\<not> (is_number a \<and> is_number b) \<Longrightarrow> field_changed a b = (a \<noteq> b)"
  by (cases a; cases b) simp_all


lemma fields_changed_iff:
  "fields_changed fs new_data old_data =
     (\<exists>f \<in> set fs. field_changed (dict_get new_data f) (dict_get old_data f))"
  by (induction fs) auto


lemma has_changed_Some_iff:
  "has_data_changed new_data (Some old) =
     (\<exists>f \<in> set compare_fields. field_changed (dict_get new_data f) (dict_get old f))"
  by (simp add: has_data_changed_def fields_changed_iff)

section \<open>The claims about the change detector\<close>



text \<open>
  C10. The tolerance is applied to two numbers only. As soon as one side is not a number
  (\<open>None\<close>, a string), \<open>!=\<close> decides: a compared field that is a number on one side only
  makes \<open>_has_data_changed\<close> true, and \<open>store_location_data\<close> goes on to the INSERT.
\<close>

theorem exact_equality_off_numbers:
  "field_changed (PNum x) (PNum y) = (\<bar>x - y\<bar> > 1 / 10000)
   \<and> (\<not> (is_number a \<and> is_number b) \<longrightarrow> field_changed a b = (a \<noteq> b))
   \<and> (f \<in> set compare_fields
        \<and> \<not> (is_number (dict_get new_data f) \<and> is_number (dict_get old_data f))
        \<and> dict_get new_data f \<noteq> dict_get old_data f
      \<longrightarrow> has_data_changed new_data (Some old_data))
   \<and> (f \<in> set compare_fields
        \<and> is_number (dict_get new_data f) \<noteq> is_number (dict_get old_data f)
      \<longrightarrow> has_data_changed new_data (Some old_data))
   \<and> (f \<in> set compare_fields
        \<and> is_number (dict_get d f) \<noteq> is_number (dict_get old_data f)
        \<and> get_last_record E (dict_get d ''vehicleId'') s = Some old_data
      \<longrightarrow> store_location_data E (PDict d) s = insert_row E d (tick s))"
proof -
  have a: "field_changed a b = (a \<noteq> b)" if "\<not> (is_number a \<and> is_number b)" for a b
    using that by (rule field_changed_not_num)
  have b: "has_data_changed n (Some old)"
    if "f \<in> set compare_fields" "\<not> (is_number (dict_get n f) \<and> is_number (dict_get old f))"
      "dict_get n f \<noteq> dict_get old f" for n old
    using that a unfolding has_changed_Some_iff by blast
  have c: "has_data_changed n (Some old)"
    if "f \<in> set compare_fields" "is_number (dict_get n f) \<noteq> is_number (dict_get old f)" for n old
  proof -
    from that(2) have "\<not> (is_number (dict_get n f) \<and> is_number (dict_get old f))"
      and "dict_get n f \<noteq> dict_get old f" by auto
    with that(1) show ?thesis by (rule b)
  qed
  show ?thesis using a b c by (auto simp: store_location_data_def)
qed

theorem exact_equality_off_numbers_witness:
  "has_data_changed [(''speed'', PNone)] (Some [(''speed'', PNum 0)])
   \<and> has_data_changed [(''speed'', PStr ''0'')] (Some [(''speed'', PNum 0)])
   \<and> has_data_changed [(''speed'', PNum 0)] (Some [])"
  using exact_equality_off_numbers [of 0 0 PNone "PNum 0" "''speed''" "[(''speed'', PNone)]" "[(''speed'', PNum 0)]"]
    exact_equality_off_numbers [of 0 0 PNone "PNum 0" "''speed''" "[(''speed'', PStr ''0'')]" "[(''speed'', PNum 0)]"]
    exact_equality_off_numbers [of 0 0 PNone "PNum 0" "''speed''" "[(''speed'', PNum 0)]" "[]"]
  by (simp add: has_data_changed_def compare_fields_def dict_get_def)

section \<open>The claim about the credential\<close>

text \<open>
  C5. A token loaded from the token file is kept exactly when
  \<open>now - saved_at < 12 * 3600\<close>, and is replaced by \<open>None\<close> otherwise: a token saved at \<open>T\<close> is
  recent at \<open>T + 43200 - eps\<close> and not at \<open>T + 43200\<close> nor at \<open>T + 43200 + eps\<close>.
\<close>

theorem credential_validity:
  "(token_file s = Some (Encoded (PDict token_data))
      \<and> dict_get_default token_data ''saved_at'' (PNum 0) = PNum acquired_at
    \<longrightarrow> access_token (load_saved_token E s) =
         (if clock E (step s) - acquired_at < 12 * 3600 then dict_get token_data ''access_token''
          else PNone))
   \<and> token_is_recent now acquired_at = (now - acquired_at < 43200)
   \<and> (0 < eps \<longrightarrow> token_is_recent (T + 43200 - eps) T \<and> \<not> token_is_recent (T + 43200 + eps) T)
   \<and> \<not> token_is_recent (T + 43200) T"
  by (auto simp: load_saved_token_def token_is_recent_def Let_def)

theorem credential_validity_witness:
  "access_token (load_saved_token quiet (saved_token 56801)) = PStr ''abc''
   \<and> access_token (load_saved_token quiet (saved_token 56800)) = PNone
   \<and> access_token (load_saved_token quiet (saved_token 56799)) = PNone
   \<and> token_is_recent (100000 + 43200 - 1) 100000 \<and> \<not> token_is_recent (100000 + 43200 + 1) 100000"
  using credential_validity [of "saved_token 56801" "[(''access_token'', PStr ''abc''), (''saved_at'', PNum 56801)]" 56801 quiet 0 1 100000]
    credential_validity [of "saved_token 56800" "[(''access_token'', PStr ''abc''), (''saved_at'', PNum 56800)]" 56800 quiet 0 1 100000]
    credential_validity [of "saved_token 56799" "[(''access_token'', PStr ''abc''), (''saved_at'', PNum 56799)]" 56799 quiet 0 1 100000]
  by (simp add: saved_token_def quiet_def dict_get_def dict_get_default_def)

section \<open>Properties of the history store\<close>

lemma those_map_Some:
  "(\<And>x. x \<in> set xs \<Longrightarrow> f x = Some (g x)) \<Longrightarrow> those (map f xs) = Some (map g xs)"
  by (induction xs) simp_all

lemma sql_store_typed: "has_column_type ty v \<Longrightarrow> sql_store E ty v = Some v"
  by (cases ty; cases v) simp_all

lemma bind_row_typed:
  assumes "schema_typed d"
  shows "bind_row E d = Some (map (dict_get d) data_keys)"
proof -
  have "those (map (\<lambda>(column, key, ty). sql_store E ty (dict_get d key)) schema)
        = Some (map (\<lambda>(column, key, ty). dict_get d key) schema)"
  proof (rule those_map_Some)
    fix x assume "x \<in> set schema"
    with assms have "case x of (column, key, ty) \<Rightarrow> has_column_type ty (dict_get d key)"
      by (simp add: schema_typed_def list_all_iff)
    then show "(case x of (column, key, ty) \<Rightarrow> sql_store E ty (dict_get d key))
             = Some (case x of (column, key, ty) \<Rightarrow> dict_get d key)"
      by (auto simp: sql_store_typed split: prod.splits)
  qed
  moreover have "map (\<lambda>(column, key, ty). dict_get d key) schema = map (dict_get d) data_keys"
    by (simp add: data_keys_def case_prod_beta comp_def)
  ultimately show ?thesis by (simp add: bind_row_def)
qed

lemma insert_row_typed:
  "schema_typed d \<Longrightarrow> \<not> insert_fails E (step s) \<Longrightarrow>
     insert_row E d s = tick (s\<lparr>db := db s @ [new_row d]\<rparr>)"
  by (simp add: insert_row_def bind_row_typed new_row_def)

lemma map_of_zip_map:
  "map_of (zip ks (map g ks)) k = (if k \<in> set ks then Some (g k) else None)"
  by (induction ks) auto

lemma row_snapshot_new_row:
  "f \<in> set data_keys \<Longrightarrow> dict_get (row_snapshot (new_row d)) f = dict_get d f"
  by (simp add: row_snapshot_def new_row_def dict_get_def map_of_zip_map)

lemma data_keys_eval:
  "data_keys =
     [''deviceId'', ''accountId'', ''vehicleId'', ''vehicleNumber'', ''vehicleName'',
      ''vehicleMake'', ''vehicleModel'', ''driverName'', ''vehicleYear'', ''groupId'',
      ''driverId'', ''fuelType'', ''type'', ''latitude'', ''longitude'',
      ''currentFuelConsumption'', ''totalFuelConsumption'', ''currentDEFConsumption'',
      ''totalDEFConsumption'', ''tripEVBatteryConsumed'', ''tripEVBatteryVoltageConsumed'',
      ''currentOdometer'', ''totalOdometer'', ''speed'', ''timeStamp'', ''createDate'',
      ''rpm'', ''status'', ''mileage'', ''mileageDEF'', ''mileageEV'', ''mileageEVVoltage'',
      ''lastAccOn'', ''gear'', ''rpmSlot'', ''durationEngineOn'', ''serverTime'', ''course'',
      ''address'']"
  by (simp add: data_keys_def schema_def)

lemma compare_fields_stored: "f \<in> set compare_fields \<Longrightarrow> f \<in> set data_keys"
  by (auto simp: compare_fields_def data_keys_eval)

lemma vehicleId_stored: "''vehicleId'' \<in> set data_keys"
  by (simp add: data_keys_eval)

lemma otherAttributes_not_compared: "f \<in> set compare_fields \<Longrightarrow> f \<noteq> ''otherAttributes''"
  by (auto simp: compare_fields_def)

lemma dict_get_snoc: "k \<noteq> k' \<Longrightarrow> dict_get (d @ [(k', v)]) k = dict_get d k"
  by (simp add: dict_get_def map_add_def split: option.splits)


lemma has_changed_cong_old:
  "(\<And>f. f \<in> set compare_fields \<Longrightarrow> dict_get b f = dict_get b' f) \<Longrightarrow>
     has_data_changed a (Some b) = has_data_changed a (Some b')"
  by (simp add: has_data_changed_def fields_changed_iff)

lemma has_changed_otherAttributes:
  "has_data_changed a (Some (b @ [(''otherAttributes'', v)])) = has_data_changed a (Some b)"
  by (rule has_changed_cong_old) (simp add: dict_get_snoc otherAttributes_not_compared)



lemma get_last_record_entity_rows:
  "get_last_record E vehicle_id s =
     (if select_fails E (step s) \<or> entity_rows E vehicle_id (db s) = [] then None
      else decode_row (last (entity_rows E vehicle_id (db s))))"
proof (cases "sql_store E INTEGER vehicle_id")
  case None
  then show ?thesis by (simp add: get_last_record_def entity_rows_def)
next
  case (Some p)
  let ?H = "filter (\<lambda>r. sql_eq (dict_get (row_snapshot r) ''vehicleId'') p) (db s)"
  show ?thesis
  proof (cases "?H = []")
    case True
    with Some show ?thesis by (simp add: get_last_record_def entity_rows_def)
  next
    case False
    then obtain r older where "rev ?H = r # older" by (cases "rev ?H") auto
    moreover from this have "last ?H = r" by (metis last_rev list.sel(1) rev_rev_ident)
    ultimately show ?thesis using Some False
      by (simp add: get_last_record_def entity_rows_def)
  qed
qed



lemma decode_new_row:
  "decode_row (new_row d) =
     Some (row_snapshot (new_row d) @ [(''otherAttributes'', dict_get_default d ''otherAttributes'' (PDict []))])"
  by (simp add: decode_row_def new_row_def)

lemma db_tick [simp]: "db (tick s) = db s"
  by (simp add: tick_def)

lemma step_tick [simp]: "step (tick s) = Suc (step s)"
  by (simp add: tick_def)

lemma store_dict:
  "store_location_data E (PDict d) s =
     (if has_data_changed d (get_last_record E (dict_get d ''vehicleId'') s)
      then insert_row E d (tick s) else tick s)"
  by (simp add: store_location_data_def Let_def)



lemma entity_rows_number:
  "is_number v \<Longrightarrow>
     entity_rows E v rows = filter (\<lambda>r. dict_get (row_snapshot r) ''vehicleId'' = v) rows"
  by (cases v) (auto simp: entity_rows_def sql_eq_def intro: filter_cong)







lemma running_at_typed: "schema_typed (running_at v) \<and> is_number (dict_get (running_at v) ''vehicleId'')"
  by (simp add: schema_typed_def schema_def running_at_def dict_get_def)

lemma has_changed_stored:
  "has_data_changed a (Some (row_snapshot (new_row b))) = has_data_changed a (Some b)"
  by (rule has_changed_cong_old) (simp add: row_snapshot_new_row compare_fields_stored)

lemma vehicleId_new_row: "dict_get (row_snapshot (new_row d)) ''vehicleId'' = dict_get d ''vehicleId''"
  by (simp add: row_snapshot_new_row vehicleId_stored)

lemma running_at_vehicleId: "dict_get (running_at v) ''vehicleId'' = PNum 42"
  by (simp add: running_at_def dict_get_def)

lemma running_at_changed:
  "has_data_changed (running_at v) (Some (running_at w)) = (\<bar>v - w\<bar> > 1 / 10000)"
  by (simp add: has_data_changed_def compare_fields_def running_at_def dict_get_def)

lemma entity_rows_Nil: "entity_rows E v [] = []"
  by (simp add: entity_rows_def split: option.splits)

lemmas eval_store =
  entity_rows_Nil decode_new_row store_dict get_last_record_entity_rows entity_rows_number insert_row_typed running_at_typed
  running_at_vehicleId vehicleId_new_row has_changed_otherAttributes has_changed_stored
  running_at_changed
  has_data_changed_def [of _ None]

lemma db_insert_row:
  "step s' = step s \<Longrightarrow> db s' = [] \<Longrightarrow> db (insert_row E d s) = db s @ db (insert_row E d s')"
  by (simp add: insert_row_def split: option.splits)

section \<open>The claims about the history store\<close>



text \<open>The end-to-end scenario of the specification: three cycles, two records.\<close>

lemma end_to_end_scenario:
  "db (store_all quiet [running_at 10, running_at 10, running_at 25] fresh)
     = [new_row (running_at 10), new_row (running_at 25)]"
  by (simp add: eval_store quiet_def fresh_def tick_def)




text \<open>
  C9. When reading the last record fails (the SELECT or the binding of its parameter
  raises, or \<open>other_attributes\<close> of the row found does not decode), \<open>_get_last_record\<close>
  returns \<open>None\<close> and \<open>store_location_data\<close> does what it does on a first observation: it
  goes to the INSERT, and the rows it appends are those it appends to an empty history.
\<close>

theorem read_error_is_first_observation:
  assumes "select_fails E (step s)
         \<or> sql_store E INTEGER (dict_get d ''vehicleId'') = None
         \<or> (entity_rows E (dict_get d ''vehicleId'') (db s) \<noteq> []
            \<and> other_attributes (last (entity_rows E (dict_get d ''vehicleId'') (db s))) = Undecodable)"
  shows "get_last_record E (dict_get d ''vehicleId'') s = None
       \<and> store_location_data E (PDict d) s = insert_row E d (tick s)
       \<and> db (store_location_data E (PDict d) s) =
           db s @ db (store_location_data E (PDict d) (s\<lparr>db := []\<rparr>))
       \<and> (bind_row E d = Some cs \<and> \<not> insert_fails E (Suc (step s))
          \<longrightarrow> db (store_location_data E (PDict d) s) =
                db s @ [\<lparr>cells = cs,
                         other_attributes = Encoded (dict_get_default d ''otherAttributes'' (PDict []))\<rparr>])"
proof -
  have none: "get_last_record E (dict_get d ''vehicleId'') s = None"
    using assms by (auto simp: get_last_record_entity_rows decode_row_def entity_rows_def)
  then have st: "store_location_data E (PDict d) s = insert_row E d (tick s)"
    by (simp add: store_dict has_data_changed_def)
  have "get_last_record E (dict_get d ''vehicleId'') (s\<lparr>db := []\<rparr>) = None"
    by (simp add: get_last_record_entity_rows entity_rows_def split: option.splits)
  then have st0: "store_location_data E (PDict d) (s\<lparr>db := []\<rparr>) = insert_row E d (tick (s\<lparr>db := []\<rparr>))"
    by (simp add: store_dict has_data_changed_def)
  have "db (insert_row E d (tick s)) = db (tick s) @ db (insert_row E d (tick (s\<lparr>db := []\<rparr>)))"
    by (rule db_insert_row) (simp_all add: tick_def)
  with none st st0 show ?thesis by (simp add: insert_row_def)
qed

theorem read_error_is_first_observation_witness:
  "get_last_record flaky (PNum 42) one_record = None
   \<and> get_last_record quiet (PNum 42) one_record \<noteq> None
   \<and> \<not> has_data_changed (running_at 10) (get_last_record quiet (PNum 42) one_record)
   \<and> db (store_location_data quiet (PDict (running_at 10)) one_record) = [new_row (running_at 10)]
   \<and> db (store_location_data flaky (PDict (running_at 10)) one_record)
       = [new_row (running_at 10), new_row (running_at 10)]"
  using read_error_is_first_observation [of flaky one_record "running_at 10"
      "map (dict_get (running_at 10)) data_keys"]
    bind_row_typed [of "running_at 10" flaky]
  by (simp add: eval_store new_row_def [symmetric] flaky_def quiet_def one_record_def fresh_def tick_def)

text \<open>
  Outside the amended C2: \<open>rpm\<close> is a TEXT column, so a numeric \<open>rpm\<close> is read back as a
  string, never equal to the number fetched, and the same snapshot is stored again.
\<close>

lemma bind_revving:
  "bind_row quiet revving = Some (map (dict_get ((''rpm'', PStr ''number'') # running_at 10)) data_keys)"
  by (simp add: bind_row_def schema_def data_keys_def revving_def running_at_def quiet_def dict_get_def)

lemma numeric_rpm_is_stored_again:
  "length (db (store_all quiet [revving, revving] fresh)) = 2"
proof -
  let ?r = "new_row ((''rpm'', PStr ''number'') # running_at 10)"
  have ins: "insert_row quiet revving s = tick (s\<lparr>db := db s @ [?r]\<rparr>)" for s
    unfolding insert_row_def bind_revving
    by (simp add: new_row_def quiet_def dict_get_default_def revving_def running_at_def)
  have vid: "dict_get revving ''vehicleId'' = PNum 42"
    by (simp add: revving_def running_at_def dict_get_def)
  have vid': "dict_get (row_snapshot ?r) ''vehicleId'' = PNum 42"
    unfolding vehicleId_new_row by (simp add: running_at_def dict_get_def)
  have ch: "has_data_changed revving (Some ((''rpm'', PStr ''number'') # running_at 10))"
    by (simp add: has_data_changed_def compare_fields_def revving_def running_at_def dict_get_def)
  have sel: "\<not> select_fails quiet k" for k
    by (simp add: quiet_def)
  show ?thesis
    by (simp add: store_dict get_last_record_entity_rows entity_rows_number entity_rows_Nil
        decode_new_row has_changed_otherAttributes has_changed_stored ins vid vid' ch sel
        fresh_def tick_def has_data_changed_def [of _ None])
qed

section \<open>Properties of the telemetry client\<close>

lemma fetch_network_error:
  "spec_classify (next_response E v t s) = NetworkError \<Longrightarrow>
     fetch_vehicle_location E v t s = Some (PNone, sent s)"
  by (subst fetch_vehicle_location.simps)
    (auto split: http_result.splits option.splits if_splits)

lemma fetch_parse_error:
  "spec_classify (next_response E v t s) = ParseError \<Longrightarrow>
     fetch_vehicle_location E v t s = Some (PNone, sent s)"
  by (subst fetch_vehicle_location.simps)
    (auto split: http_result.splits option.splits if_splits)

lemma fetch_snapshot:
  "spec_classify (next_response E v t s) = Snapshot data \<Longrightarrow>
     fetch_vehicle_location E v t s = Some (data, sent s)"
  by (subst fetch_vehicle_location.simps)
    (auto split: http_result.splits option.splits if_splits)

lemma fetch_auth_error:
  "spec_classify (next_response E v t s) = AuthError \<Longrightarrow>
     fetch_vehicle_location E v t s =
       (let (logged_in, s2) = login_with_selenium E (drop_token (sent s))
        in if logged_in then fetch_vehicle_location E v (Some (request_time E t s)) s2
           else Some (PNone, s2))"
  by (subst fetch_vehicle_location.simps)
    (auto split: http_result.splits option.splits if_splits)

lemma login_succeeds:
  "browser_login E (step s) = Some tok \<Longrightarrow> tok \<noteq> [] \<Longrightarrow>
     login_with_selenium E s =
       (True, save_token E (s\<lparr>step := Suc (step s), logins := Suc (logins s), access_token := PStr tok\<rparr>))"
  by (simp add: login_with_selenium_def Let_def)

lemma login_fails:
  "browser_login E (step s) = None \<Longrightarrow>
     login_with_selenium E s = (False, s\<lparr>step := Suc (step s), logins := Suc (logins s)\<rparr>)"
  by (simp add: login_with_selenium_def Let_def)

lemma fetch_never_returns:
  assumes rej: "\<And>k v ts auth. spec_classify (api E k v ts auth) = AuthError"
    and log: "\<And>k. \<exists>tok. browser_login E k = Some tok \<and> tok \<noteq> []"
  shows "fetch_vehicle_location E v t s = None"
proof -
  have "False" if h: "fetch_vehicle_location E v t s = Some y" for y
  proof -
    have "E = E \<longrightarrow> False"
    proof (rule fetch_vehicle_location.raw_induct
        [where P = "\<lambda>E' v t s y. E' = E \<longrightarrow> False", OF _ h], goal_cases)
      case (1 fetch E' v t s y)
      show ?case
      proof
        assume E': "E' = E"
        have auth: "spec_classify (next_response E v t s) = AuthError"
          by (simp add: next_response_def rej)
        obtain tok where tok: "browser_login E (step (drop_token (sent s))) = Some tok" "tok \<noteq> []"
          using log by blast
        obtain s2 where "login_with_selenium E (drop_token (sent s)) = (True, s2)"
          using login_succeeds [OF tok] by blast
        with 1(2) auth E' have "fetch E v (Some (request_time E t s)) s2 = Some y"
          by (auto split: http_result.splits option.splits if_splits)
        with 1(1) show False by blast
      qed
    qed
    then show False by simp
  qed
  then show ?thesis by (cases "fetch_vehicle_location E v t s") auto
qed

lemmas eval_fetch =
  fetch_auth_error fetch_snapshot fetch_network_error fetch_parse_error login_succeeds login_fails
  next_response_def request_time_def py_int_def bearer_def sent_def drop_token_def
  save_token_def

section \<open>The claims about the telemetry client\<close>

text \<open>
  C1 fails on the code. A fetch whose first two requests are answered 401 logs in twice
  and sends three requests before it returns the snapshot: the second \<open>AuthError\<close> is
  followed by a second acquisition and a third request, not by giving up. With a remote
  that always answers 401 and a login that always succeeds, the fetch never returns.
\<close>

theorem reauth_is_not_bounded:
  "fetch_vehicle_location rejecting_twice 42 None fresh
     = Some (PDict (running_at 10), renewed 5 3 2)
   \<and> fetch_vehicle_location always_rejecting 42 None fresh = None"
proof
  show "fetch_vehicle_location rejecting_twice 42 None fresh
     = Some (PDict (running_at 10), renewed 5 3 2)"
    by (simp add: eval_fetch rejecting_twice_def quiet_def fresh_def renewed_def)
  show "fetch_vehicle_location always_rejecting 42 None fresh = None"
    by (rule fetch_never_returns) (simp_all add: always_rejecting_def quiet_def)
qed

text \<open>
  C6 as stated fails: \<open>fetch_vehicle_location\<close> itself logs in again and repeats the
  request after a 403, and it returns the same \<open>None\<close> for a rejected token, a 503 and a
  body that does not decode.
\<close>

theorem fetch_reauthenticates_within_itself:
  "fetch_vehicle_location rejecting_once 42 None fresh
     = Some (PDict (running_at 10), renewed 3 2 1)
   \<and> map_option fst (fetch_vehicle_location unauthorized 42 None fresh) = Some PNone
   \<and> map_option fst (fetch_vehicle_location unavailable 42 None fresh) = Some PNone
   \<and> map_option fst (fetch_vehicle_location garbled 42 None fresh) = Some PNone"
  by (simp add: eval_fetch rejecting_once_def unauthorized_def unavailable_def garbled_def
      quiet_def fresh_def renewed_def)

text \<open>
  C6, as amended. \<open>fetch_vehicle_location\<close> returns the decoded body of a 200 response,
  and \<open>None\<close> without any retry or login on a \<open>NetworkError\<close> or a \<open>ParseError\<close>; on an
  \<open>AuthError\<close> it drops the token, logs in once, and returns \<open>None\<close> if the login fails,
  and otherwise repeats the request itself, with the same \<open>time\<close>.
\<close>

theorem fetch_is_unclassified_and_retries:
  "(spec_classify (next_response E v t s) = NetworkError
      \<or> spec_classify (next_response E v t s) = ParseError
     \<longrightarrow> fetch_vehicle_location E v t s = Some (PNone, sent s))
   \<and> (spec_classify (next_response E v t s) = Snapshot data
     \<longrightarrow> fetch_vehicle_location E v t s = Some (data, sent s))
   \<and> (spec_classify (next_response E v t s) = AuthError
        \<and> login_with_selenium E (drop_token (sent s)) = (False, s2)
     \<longrightarrow> fetch_vehicle_location E v t s = Some (PNone, s2) \<and> logins s2 = Suc (logins s))
   \<and> (spec_classify (next_response E v t s) = AuthError
        \<and> login_with_selenium E (drop_token (sent s)) = (True, s2)
     \<longrightarrow> fetch_vehicle_location E v t s
           = fetch_vehicle_location E v (Some (request_time E t s)) s2
         \<and> logins s2 = Suc (logins s))"
  by (auto simp: fetch_network_error fetch_parse_error fetch_snapshot fetch_auth_error
      login_with_selenium_def drop_token_def sent_def save_token_def Let_def
      split: option.splits if_splits)

theorem fetch_is_unclassified_and_retries_witness:
  "fetch_vehicle_location quiet 42 None fresh = Some (PNone, sent fresh)
   \<and> fetch_vehicle_location garbled 42 None fresh = Some (PNone, sent fresh)
   \<and> fetch_vehicle_location unavailable 42 None fresh = Some (PNone, sent fresh)
   \<and> fetch_vehicle_location answering 42 None fresh
       = Some (PDict (running_at 10), sent fresh)
   \<and> fetch_vehicle_location unauthorized 42 None fresh
       = Some (PNone, fresh\<lparr>access_token := PNone, step := 2, requests := 1, logins := 1\<rparr>)
   \<and> fetch_vehicle_location rejecting_once 42 None fresh
       = fetch_vehicle_location rejecting_once 42 (Some 100000000) (renewed 2 1 1)"
  using fetch_is_unclassified_and_retries [of quiet 42 None fresh]
    fetch_is_unclassified_and_retries [of garbled 42 None fresh]
    fetch_is_unclassified_and_retries [of unavailable 42 None fresh]
    fetch_is_unclassified_and_retries [of answering 42 None fresh "PDict (running_at 10)"]
    fetch_is_unclassified_and_retries [of unauthorized 42 None fresh _
      "fresh\<lparr>access_token := PNone, step := 2, requests := 1, logins := 1\<rparr>"]
    fetch_is_unclassified_and_retries [of rejecting_once 42 None fresh _ "renewed 2 1 1"]
  by (simp add: rejecting_once_def unauthorized_def unavailable_def garbled_def answering_def
      quiet_def fresh_def renewed_def login_succeeds login_fails
      next_response_def request_time_def py_int_def bearer_def sent_def drop_token_def
  save_token_def)

section \<open>Properties of the scheduler\<close>

lemma fetch_cycle_append:
  "fetch_cycle E (xs @ ys) s =
     (case fetch_cycle E xs s of None \<Rightarrow> None | Some s1 \<Rightarrow> fetch_cycle E ys s1)"
  by (induction xs arbitrary: s) (auto split: option.splits)

lemma process_failed_fetch:
  "spec_classify (next_response E v None s) = NetworkError
     \<or> spec_classify (next_response E v None s) = ParseError \<Longrightarrow>
   process_vehicle E v s = Some (sent s)"
  by (auto simp: process_vehicle_def fetch_network_error fetch_parse_error)

lemma snapshot_of_typed:
  "schema_typed (snapshot_of v) \<and> is_number (dict_get (snapshot_of v) ''vehicleId'')"
  by (simp add: schema_typed_def schema_def snapshot_of_def dict_get_def)

lemma snapshot_of_vehicleId: "dict_get (snapshot_of v) ''vehicleId'' = PNum (real_of_int v)"
  by (simp add: snapshot_of_def dict_get_def)

lemma snapshot_of_not_empty: "snapshot_of v \<noteq> []"
  by (simp add: snapshot_of_def)

lemmas eval_cycle =
  process_vehicle_def eval_fetch eval_store snapshot_of_typed snapshot_of_vehicleId
  snapshot_of_not_empty

lemma first_of_three:
  "fetch_cycle second_garbled [1] fresh
     = Some (fresh\<lparr>db := [new_row (snapshot_of 1)], step := 3, requests := 1\<rparr>)"
  by (simp add: eval_cycle second_garbled_def quiet_def fresh_def tick_def)






section \<open>The claims about the scheduler\<close>

text \<open>
  C7. In a cycle, a fetch that fails with a \<open>NetworkError\<close> or a \<open>ParseError\<close> changes
  neither the history nor the token, and the cycle goes on with the entities that
  follow, as a cycle over them would: with entities 1, 2, 3 and a body for entity 2 that
  does not decode, entities 1 and 3 are fetched and stored.
\<close>

theorem failed_fetch_is_isolated:
  assumes "fetch_cycle E before s = Some s1"
    and "spec_classify (next_response E v None s1) = NetworkError
       \<or> spec_classify (next_response E v None s1) = ParseError"
  shows "fetch_cycle E (before @ v # after) s = fetch_cycle E after (sent s1)
       \<and> db (sent s1) = db s1 \<and> access_token (sent s1) = access_token s1"
  using assms by (simp add: fetch_cycle_append process_failed_fetch sent_def)

theorem failed_fetch_is_isolated_witness:
  "fetch_cycle second_garbled [1, 2, 3] fresh
     = Some (fresh\<lparr>db := [new_row (snapshot_of 1), new_row (snapshot_of 3)],
                   step := 7, requests := 3\<rparr>)"
  using failed_fetch_is_isolated [of second_garbled "[1]" fresh
      "fresh\<lparr>db := [new_row (snapshot_of 1)], step := 3, requests := 1\<rparr>" 2 "[3]"]
    first_of_three
  by (simp add: eval_cycle second_garbled_def quiet_def fresh_def tick_def)




end
